theory Spec2Isabelle
  imports Complex_Main "HOL-Library.AList"
begin

section \<open>Values and outcomes of the external collaborators\<close>

text \<open>
  The monitor daemon (czarina-core/llm-monitor-daemon.py) talks to three collaborators:
  the wall clock, tmux (through subprocess.run) and the inference service (through the
  anthropic client and json.loads). Their answers are inputs of the model. A Python
  value that came out of json.loads is a \<open>jvalue\<close>; a Python dict with string keys is
  an association list in insertion order.
\<close>

text \<open>
  A Python float is kept as the expression that the code evaluates to obtain it; the
  IEEE 754 rounding of the operations is not evaluated, so that no statement depends
  on a rounded value. \<open>FConst q\<close> is the double nearest to the decimal literal \<open>q\<close>,
  \<open>FOfInt n\<close> the conversion of an int that is in range (see \<open>int_too_large\<close>).
\<close>

datatype pyfloat =
    FConst rat
  | FInfinity
  | FNegInfinity
  | FNaN
  | FOfInt int
  | FMul pyfloat pyfloat
  | FDiv pyfloat pyfloat
  | FAdd pyfloat pyfloat

datatype jvalue =
    JNull
  | JBool bool
  | JInt int
  | JFloat pyfloat
  | JStr string
  | JArr "jvalue list"
  | JObj "(string \<times> jvalue) list"

type_synonym pydict = "(string \<times> jvalue) list"

text \<open>\<open>d.get(k, dflt)\<close> and \<open>d[k] = v\<close> of a Python dict.\<close>

definition dict_get :: "pydict \<Rightarrow> string \<Rightarrow> jvalue \<Rightarrow> jvalue" where
  "dict_get d k dflt = (case map_of d k of None \<Rightarrow> dflt | Some v \<Rightarrow> v)"

definition dict_set :: "string \<Rightarrow> jvalue \<Rightarrow> pydict \<Rightarrow> pydict" where
  "dict_set k v d = AList.update k v d"

text \<open>
  The exceptions that occur in the daemon. All of them are subclasses of Python's
  \<open>Exception\<close>, so an \<open>except Exception\<close> clause catches each of them.
\<close>

datatype py_exn =
    KeyError string
  | TypeError string
  | JSONDecodeError string
  | TimeoutExpired string
  | OverflowError string
  | UnboundLocalError string
  | OtherException string

text \<open>
  \<open>str(e)\<close>: a KeyError prints the repr of its key, an UnboundLocalError names the
  local variable (the wording of Python 3.11), the others print their message.
\<close>

definition quoted :: "string \<Rightarrow> string" where
  "quoted k = [CHR 0x27] @ k @ [CHR 0x27]"

fun str_exn :: "py_exn \<Rightarrow> string" where
  "str_exn (KeyError k) = quoted k"
| "str_exn (TypeError m) = m"
| "str_exn (JSONDecodeError m) = m"
| "str_exn (TimeoutExpired m) = m"
| "str_exn (OverflowError m) = m"
| "str_exn (UnboundLocalError v) =
     ''cannot access local variable '' @ quoted v @ '' where it is not associated with a value''"
| "str_exn (OtherException m) = m"

text \<open>
  What \<open>subprocess.run(..., timeout=5)\<close> does: it returns a completed process (return
  code and captured standard output) or raises (\<open>TimeoutExpired\<close>, \<open>OSError\<close>, a
  \<open>TypeError\<close> for an argument that is not a string).
\<close>

datatype proc =
    Completed int string
  | ProcRaised py_exn

text \<open>
  What the classifier call does inside the analyzer's \<open>try\<close> block.
  \<^item> \<open>CallRaised m\<close>: \<open>client.messages.create\<close> raised an exception \<open>e\<close> that is
    not a \<open>json.JSONDecodeError\<close>, with \<open>str(e) = m\<close> (a timeout, a connection or
    an API error). The local variable \<open>response\<close> is not assigned.
  \<^item> \<open>CallRaisedDecodeError m\<close>: \<open>client.messages.create\<close> raised a
    \<open>json.JSONDecodeError\<close> with message \<open>m\<close>. \<open>response\<close> is not assigned.
  \<^item> \<open>BadContent i o m\<close>: the call returned with token counts \<open>i\<close> and \<open>o\<close>, and
    \<open>response.content[0].text\<close> raised an exception with message \<open>m\<close> (an
    \<open>IndexError\<close> for an empty content list, an \<open>AttributeError\<close> for a block
    without text; indexing and attribute access raise no \<open>JSONDecodeError\<close>).
  \<^item> \<open>Malformed i o raw m\<close>: the call returned the text \<open>raw\<close>, on which
    \<open>json.loads\<close> raised \<open>JSONDecodeError\<close> with message \<open>m\<close>.
  \<^item> \<open>Parsed i o v\<close>: \<open>json.loads\<close> returned the value \<open>v\<close>.
\<close>

datatype llm_outcome =
    CallRaised string
  | CallRaisedDecodeError string
  | BadContent int int string
  | Malformed int int string string
  | Parsed int int jvalue

section \<open>Configuration\<close>

record MonitorConfig =
  enabled :: bool
  model :: string
  check_interval :: int
  stale_threshold :: int
  max_context_lines :: int
  auto_approve :: bool
  log_all_decisions :: bool
  api_key :: "string option"

definition default_config :: MonitorConfig where
  "default_config = \<lparr> enabled = True, model = ''claude-3-5-haiku-20241022'',
     check_interval = 30, stale_threshold = 300, max_context_lines = 100,
     auto_approve = True, log_all_decisions = True, api_key = None \<rparr>"

section \<open>Worker state tracking\<close>

text \<open>
  A \<open>datetime\<close> is the number of microseconds since a fixed epoch (the resolution of
  Python's datetime). \<open>status\<close> holds whatever the last analysis had under the key
  \<open>status\<close>, so it is a \<open>jvalue\<close>.
\<close>

record WorkerState =
  worker_id :: string
  window_num :: int
  last_activity :: int
  last_analysis :: "pydict option"
  status :: jvalue
  consecutive_stuck_count :: int

definition WorkerState_init :: "string \<Rightarrow> int \<Rightarrow> int \<Rightarrow> WorkerState" where
  "WorkerState_init wid win now = \<lparr> worker_id = wid, window_num = win, last_activity = now,
     last_analysis = None, status = JStr ''STARTING'', consecutive_stuck_count = 0 \<rparr>"

definition update_activity :: "int \<Rightarrow> WorkerState \<Rightarrow> WorkerState" where
  "update_activity now w = w\<lparr> last_activity := now, consecutive_stuck_count := 0 \<rparr>"

text \<open>
  \<open>timedelta.seconds\<close>: a timedelta is normalised to days, seconds and microseconds
  with \<open>0 \<le> seconds < 86400\<close> and \<open>0 \<le> microseconds < 1000000\<close>; the attribute is
  the seconds component, not the total.
\<close>

definition timedelta_seconds :: "int \<Rightarrow> int" where
  "timedelta_seconds d = (d div 1000000) mod 86400"

definition is_stale :: "int \<Rightarrow> WorkerState \<Rightarrow> int \<Rightarrow> bool" where
  "is_stale now w threshold_seconds =
     (timedelta_seconds (now - last_activity w) > threshold_seconds)"

section \<open>The state of the daemon and the answers of its environment\<close>

text \<open>
  Every call of the \<open>logging\<close> module is kept as a level and a message; a message is
  the f-string's template (one constructor for each call site) with the values it
  interpolates.
\<close>

datatype level = DEBUG | INFO | WARNING | ERROR

datatype log_msg =
    CaptureFailed int string
  | SendKeysFailed int string
  | LLMAnalysis string jvalue jvalue pyfloat jvalue
  | ParseFailed string
  | RawResponse string
  | AnalysisFailed string
  | NeedsIntervention string jvalue
  | AutoApproveDisabled string jvalue
  | ExecutingAction string jvalue jvalue
  | ActionExecuted string
  | ActionFailed string
  | LogUpdate string
  | NoTerminalOutput string
  | StuckEscalation string int
  | CheckingStale string

text \<open>
  One \<open>f.write\<close> to the human-readable decisions log (timestamp, worker, status, action,
  confidence, reasoning: the values the line interpolates), and the dict that one
  \<open>f.write(json.dumps(decision))\<close> appends to llm-decisions.jsonl. The rendering of the
  values as text is not modelled: an entry of either list is one written record.
\<close>

datatype hline = HLine int string jvalue jvalue jvalue jvalue

record decision =
  d_timestamp :: int
  d_worker :: string
  d_status :: jvalue
  d_action :: jvalue
  d_keys :: jvalue
  d_reasoning :: jvalue
  d_confidence :: jvalue
  d_cost :: jvalue
  d_tokens :: jvalue

text \<open>
  The mutable state: the configuration, the tmux session name, the worker table (a dict
  in insertion order), the analyzer's counters, the two audit-log files and the logging
  calls. Two fields record calls of the collaborators that the code itself does not
  store: the calls of \<open>TmuxInterface.send_keys\<close> made so far (window and keys), and the
  worker ids for which \<open>client.messages.create\<close> was called, in order
  (\<open>total_requests\<close> counts the same calls).
\<close>

record sys =
  config :: MonitorConfig
  session_name :: string
  workers :: "(string \<times> WorkerState) list"
  total_requests :: int
  total_cost :: pyfloat
  classifier_calls :: "string list"
  decisions_log :: "hline list"
  json_log :: "decision list"
  send_calls :: "(int \<times> jvalue) list"
  logging :: "(level \<times> log_msg) list"

text \<open>
  The environment's answers during one classification pass or one timer tick (every
  worker is visited at most once in a tick, so the answers are indexed by the worker or
  by the call's arguments): the clock read by \<open>is_stale\<close> and by \<open>_log_decision\<close>, the
  two tmux subprocesses, the last event line and the prompt file of a worker, and the
  classifier call for the analyzer's four arguments.
\<close>

record world =
  now_stale :: "string \<Rightarrow> int"
  now_log :: "string \<Rightarrow> int"
  run_capture :: "string \<Rightarrow> int \<Rightarrow> int \<Rightarrow> proc"
  run_send :: "string \<Rightarrow> int \<Rightarrow> jvalue \<Rightarrow> proc"
  last_event_of :: "string \<Rightarrow> string option"
  worker_prompt_of :: "string \<Rightarrow> string option"
  llm :: "string \<Rightarrow> string \<Rightarrow> string option \<Rightarrow> string option \<Rightarrow> llm_outcome"

definition log_call :: "level \<Rightarrow> log_msg \<Rightarrow> sys \<Rightarrow> sys" where
  "log_call l m s = s\<lparr> logging := logging s @ [(l, m)] \<rparr>"

section \<open>TmuxInterface\<close>

text \<open>The body of the \<open>try\<close> block of \<open>capture_pane\<close>, then the method with its handler.\<close>

definition capture_pane_try :: "proc \<Rightarrow> py_exn + string option" where
  "capture_pane_try r =
     (case r of
        ProcRaised e \<Rightarrow> Inl e
      | Completed returncode stdout \<Rightarrow>
          if returncode = 0 then Inr (Some stdout) else Inr None)"

definition capture_pane :: "world \<Rightarrow> int \<Rightarrow> int \<Rightarrow> sys \<Rightarrow> (py_exn + string option) \<times> sys" where
  "capture_pane wld window lines s =
     (case capture_pane_try (run_capture wld (session_name s) window lines) of
        Inr r \<Rightarrow> (Inr r, s)
      | Inl e \<Rightarrow> (Inr None, log_call ERROR (CaptureFailed window (str_exn e)) s))"

definition send_keys_try :: "proc \<Rightarrow> py_exn + bool" where
  "send_keys_try r =
     (case r of
        ProcRaised e \<Rightarrow> Inl e
      | Completed returncode stdout \<Rightarrow> Inr (returncode = 0))"

definition send_keys :: "world \<Rightarrow> int \<Rightarrow> jvalue \<Rightarrow> sys \<Rightarrow> (py_exn + bool) \<times> sys" where
  "send_keys wld window keys s =
     (let s1 = s\<lparr> send_calls := send_calls s @ [(window, keys)] \<rparr> in
      case send_keys_try (run_send wld (session_name s) window keys) of
        Inr r \<Rightarrow> (Inr r, s1)
      | Inl e \<Rightarrow> (Inr False, log_call ERROR (SendKeysFailed window (str_exn e)) s1))"

section \<open>WorkerAnalyzer\<close>

text \<open>
  The cost of one call, \<open>(input_tokens * 0.25 / 1_000_000) + (output_tokens * 1.25 /
  1_000_000)\<close>. \<open>int * float\<close> converts the int to a float first, which raises
  \<open>OverflowError\<close> when the int rounds to a value beyond the largest double; the
  other operations do not raise.
\<close>

definition int_too_large :: "int \<Rightarrow> bool" where
  "int_too_large n = (2 ^ 1024 - 2 ^ 970 \<le> \<bar>n\<bar>)"

definition analysis_cost :: "int \<Rightarrow> int \<Rightarrow> pyfloat" where
  "analysis_cost input_tokens output_tokens =
     FAdd (FDiv (FMul (FOfInt input_tokens) (FConst (1 / 4))) (FOfInt 1000000))
          (FDiv (FMul (FOfInt output_tokens) (FConst (5 / 4))) (FOfInt 1000000))"

definition analysis_cost_try :: "int \<Rightarrow> int \<Rightarrow> py_exn + pyfloat" where
  "analysis_cost_try input_tokens output_tokens =
     (if int_too_large input_tokens \<or> int_too_large output_tokens
      then Inl (OverflowError ''int too large to convert to float'')
      else Inr (analysis_cost input_tokens output_tokens))"

text \<open>\<open>result['cost'] = cost\<close> on the value json.loads returned: only a dict takes it.\<close>

fun setitem :: "jvalue \<Rightarrow> string \<Rightarrow> jvalue \<Rightarrow> py_exn + pydict" where
  "setitem (JObj d) k v = Inr (dict_set k v d)"
| "setitem (JArr xs) k v = Inl (TypeError ''list indices must be integers or slices, not str'')"
| "setitem (JStr x) k v = Inl (TypeError (quoted ''str'' @ '' object does not support item assignment''))"
| "setitem (JInt n) k v = Inl (TypeError (quoted ''int'' @ '' object does not support item assignment''))"
| "setitem (JFloat x) k v = Inl (TypeError (quoted ''float'' @ '' object does not support item assignment''))"
| "setitem (JBool b) k v = Inl (TypeError (quoted ''bool'' @ '' object does not support item assignment''))"
| "setitem JNull k v = Inl (TypeError (quoted ''NoneType'' @ '' object does not support item assignment''))"

text \<open>
  The \<open>try\<close> block of \<open>WorkerAnalyzer.analyze_worker\<close>: count the request, call the
  classifier, compute the cost and add it to the total, parse, store \<open>cost\<close> and
  \<open>tokens\<close> in the result, log the analysis (the f-string reads the keys \<open>status\<close>,
  \<open>action\<close> and \<open>confidence\<close>, in this order) and return the result. The response of
  a call that returned carries integer token counts.
\<close>

definition after_response ::
  "string \<Rightarrow> int \<Rightarrow> int \<Rightarrow> (py_exn + jvalue) \<Rightarrow> sys \<Rightarrow> (py_exn + pydict) \<times> sys" where
  "after_response wid input_tokens output_tokens parsed s1 =
     (case analysis_cost_try input_tokens output_tokens of
        Inl e \<Rightarrow> (Inl e, s1)
      | Inr cost \<Rightarrow>
          (let s2 = s1\<lparr> total_cost := FAdd (total_cost s1) cost \<rparr> in
           case parsed of
             Inl e \<Rightarrow> (Inl e, s2)
           | Inr v \<Rightarrow>
               (case setitem v ''cost'' (JFloat cost) of
                  Inl e \<Rightarrow> (Inl e, s2)
                | Inr r1 \<Rightarrow>
                    (let result = dict_set ''tokens''
                           (JObj [(''input'', JInt input_tokens), (''output'', JInt output_tokens)]) r1
                     in case map_of result ''status'' of
                          None \<Rightarrow> (Inl (KeyError ''status''), s2)
                        | Some st \<Rightarrow>
                            (case map_of result ''action'' of
                               None \<Rightarrow> (Inl (KeyError ''action''), s2)
                             | Some act \<Rightarrow>
                                 (case map_of result ''confidence'' of
                                    None \<Rightarrow> (Inl (KeyError ''confidence''), s2)
                                  | Some conf \<Rightarrow>
                                      (Inr result,
                                       log_call INFO (LLMAnalysis wid st act cost conf) s2)))))))"

definition analyze_worker_try :: "string \<Rightarrow> llm_outcome \<Rightarrow> sys \<Rightarrow> (py_exn + pydict) \<times> sys" where
  "analyze_worker_try wid outcome s =
     (let s1 = s\<lparr> total_requests := total_requests s + 1,
                  classifier_calls := classifier_calls s @ [wid] \<rparr> in
      case outcome of
        CallRaised m \<Rightarrow> (Inl (OtherException m), s1)
      | CallRaisedDecodeError m \<Rightarrow> (Inl (JSONDecodeError m), s1)
      | BadContent input_tokens output_tokens m \<Rightarrow>
          after_response wid input_tokens output_tokens (Inl (OtherException m)) s1
      | Malformed input_tokens output_tokens raw m \<Rightarrow>
          after_response wid input_tokens output_tokens (Inl (JSONDecodeError m)) s1
      | Parsed input_tokens output_tokens v \<Rightarrow>
          after_response wid input_tokens output_tokens (Inr v) s1)"

text \<open>The dict that both \<open>except\<close> clauses return, for a given reasoning text.\<close>

definition error_analysis :: "string \<Rightarrow> pydict" where
  "error_analysis reasoning =
     [(''status'', JStr ''error''), (''action'', JStr ''none''),
      (''reasoning'', JStr reasoning), (''confidence'', JInt 0)]"

text \<open>
  \<open>response.content[0].text\<close> as the first handler evaluates it for its debug message.
  When the call itself raised, \<open>response\<close> was never assigned and the evaluation raises
  \<open>UnboundLocalError\<close>. After a parsed answer the \<open>try\<close> block raises no
  \<open>JSONDecodeError\<close>, so the handler does not read that case.
\<close>

fun response_text :: "llm_outcome \<Rightarrow> py_exn + string" where
  "response_text (CallRaised m) = Inl (UnboundLocalError ''response'')"
| "response_text (CallRaisedDecodeError m) = Inl (UnboundLocalError ''response'')"
| "response_text (BadContent input_tokens output_tokens m) = Inl (OtherException m)"
| "response_text (Malformed input_tokens output_tokens raw m) = Inr raw"
| "response_text (Parsed input_tokens output_tokens v) = Inr []"

text \<open>
  \<open>WorkerAnalyzer.analyze_worker\<close>: the \<open>try\<close> block under its two handlers,
  \<open>except json.JSONDecodeError\<close> first, \<open>except Exception\<close> second. An exception
  raised inside a handler leaves the method. The prompt that the method builds from its
  arguments is only sent to the classifier, whose answer is the environment's.
\<close>

definition WorkerAnalyzer_analyze_worker ::
  "world \<Rightarrow> string \<Rightarrow> string \<Rightarrow> string option \<Rightarrow> string option \<Rightarrow> sys \<Rightarrow> (py_exn + pydict) \<times> sys" where
  "WorkerAnalyzer_analyze_worker wld wid terminal_output last_event worker_prompt s =
     (let outcome = llm wld wid terminal_output last_event worker_prompt in
      case analyze_worker_try wid outcome s of
        (Inr result, s1) \<Rightarrow> (Inr result, s1)
      | (Inl (JSONDecodeError m), s1) \<Rightarrow>
          (let s2 = log_call ERROR (ParseFailed m) s1 in
           case response_text outcome of
             Inl e \<Rightarrow> (Inl e, s2)
           | Inr raw \<Rightarrow>
               (Inr (error_analysis (''Failed to parse LLM response: '' @ m)),
                log_call DEBUG (RawResponse raw) s2))
      | (Inl e, s1) \<Rightarrow>
          (Inr (error_analysis (''Analysis failed: '' @ str_exn e)),
           log_call ERROR (AnalysisFailed (str_exn e)) s1))"

section \<open>ActionExecutor\<close>

text \<open>
  \<open>_log_decision\<close>: build the decision from the analysis (\<open>analysis.get\<close> gives
  \<open>None\<close>, or the stated default, for a missing key), append the line that the
  f-string formats from it to the human-readable log, and append the decision to the
  JSON log. The timestamp is the clock's answer.
\<close>

definition decision_of :: "int \<Rightarrow> string \<Rightarrow> pydict \<Rightarrow> decision" where
  "decision_of timestamp wid analysis =
     \<lparr> d_timestamp = timestamp, d_worker = wid,
       d_status = dict_get analysis ''status'' JNull,
       d_action = dict_get analysis ''action'' JNull,
       d_keys = dict_get analysis ''keys'' JNull,
       d_reasoning = dict_get analysis ''reasoning'' JNull,
       d_confidence = dict_get analysis ''confidence'' JNull,
       d_cost = dict_get analysis ''cost'' (JInt 0),
       d_tokens = dict_get analysis ''tokens'' (JObj []) \<rparr>"

definition hline_of :: "decision \<Rightarrow> hline" where
  "hline_of dec = HLine (d_timestamp dec) (d_worker dec) (d_status dec) (d_action dec)
     (d_confidence dec) (d_reasoning dec)"

definition log_decision :: "int \<Rightarrow> string \<Rightarrow> pydict \<Rightarrow> sys \<Rightarrow> sys" where
  "log_decision timestamp wid analysis s =
     (let dec = decision_of timestamp wid analysis
      in s\<lparr> decisions_log := decisions_log s @ [hline_of dec],
             json_log := json_log s @ [dec] \<rparr>)"

text \<open>
  \<open>ActionExecutor.execute\<close>. \<open>analysis['reasoning']\<close> raises \<open>KeyError\<close> when the
  key is missing; nothing in \<open>execute\<close> or in its callers catches it.
\<close>

definition execute :: "world \<Rightarrow> string \<Rightarrow> int \<Rightarrow> pydict \<Rightarrow> sys \<Rightarrow> (py_exn + bool) \<times> sys" where
  "execute wld wid window analysis s =
     (let action = dict_get analysis ''action'' (JStr ''none'');
          s1 = log_decision (now_log wld wid) wid analysis s
      in if action = JStr ''none'' then (Inr True, s1)
         else if action = JStr ''intervene'' then
           (case map_of analysis ''reasoning'' of
              None \<Rightarrow> (Inl (KeyError ''reasoning''), s1)
            | Some reasoning \<Rightarrow>
                (Inr False, log_call WARNING (NeedsIntervention wid reasoning) s1))
         else if \<not> auto_approve (config s1) then
           (Inr False, log_call INFO (AutoApproveDisabled wid action) s1)
         else if action = JStr ''approve'' \<or> action = JStr ''send_keys'' then
           (let keys = dict_get analysis ''keys'' (JStr ''C-m'') in
            case map_of analysis ''reasoning'' of
              None \<Rightarrow> (Inl (KeyError ''reasoning''), s1)
            | Some reasoning \<Rightarrow>
                (case send_keys wld window keys
                        (log_call INFO (ExecutingAction wid keys reasoning) s1) of
                   (Inl e, s2) \<Rightarrow> (Inl e, s2)
                 | (Inr success, s2) \<Rightarrow>
                     (Inr success,
                      if success then log_call INFO (ActionExecuted wid) s2
                      else log_call ERROR (ActionFailed wid) s2)))
         else (Inr False, s1))"

section \<open>LLMMonitorDaemon\<close>

text \<open>
  A worker object is reached through the table, so an assignment to one of its
  attributes changes the table's entry.
\<close>

definition modify_worker :: "string \<Rightarrow> (WorkerState \<Rightarrow> WorkerState) \<Rightarrow> sys \<Rightarrow> sys" where
  "modify_worker wid f s = s\<lparr> workers := AList.map_entry wid f (workers s) \<rparr>"

definition on_worker_log_update :: "int \<Rightarrow> string \<Rightarrow> sys \<Rightarrow> sys" where
  "on_worker_log_update now wid s =
     (case map_of (workers s) wid of
        None \<Rightarrow> s
      | Some w \<Rightarrow> log_call DEBUG (LogUpdate wid) (modify_worker wid (update_activity now) s))"

text \<open>
  The second half of \<open>LLMMonitorDaemon.analyze_worker\<close> (from \<open>worker.last_analysis =
  analysis\<close> to the end): store the analysis and its status in the worker, call the
  executor unless the action is \<open>'none'\<close>, then update the stuck count. \<open>worker\<close> is
  the object as it was fetched from the table; the executor does not touch the table.
\<close>

definition apply_analysis :: "world \<Rightarrow> string \<Rightarrow> WorkerState \<Rightarrow> pydict \<Rightarrow> sys \<Rightarrow> (py_exn + unit) \<times> sys" where
  "apply_analysis wld wid worker analysis s =
     (let s0 = modify_worker wid (\<lambda>w. w\<lparr> last_analysis := Some analysis \<rparr>) s in
      case map_of analysis ''status'' of
        None \<Rightarrow> (Inl (KeyError ''status''), s0)
      | Some st \<Rightarrow>
          (let s1 = modify_worker wid (\<lambda>w. w\<lparr> status := st \<rparr>) s0 in
           case map_of analysis ''action'' of
             None \<Rightarrow> (Inl (KeyError ''action''), s1)
           | Some action \<Rightarrow>
               (case (if action \<noteq> JStr ''none''
                      then execute wld wid (window_num worker) analysis s1
                      else (Inr True, s1)) of
                  (Inl e, s2) \<Rightarrow> (Inl e, s2)
                | (Inr applied, s2) \<Rightarrow>
                    if st = JStr ''stuck'' \<or> st = JStr ''confused'' then
                      (let n = consecutive_stuck_count worker + 1;
                           s3 = modify_worker wid (\<lambda>w. w\<lparr> consecutive_stuck_count := n \<rparr>) s2
                       in if n \<ge> 3 then (Inr (), log_call ERROR (StuckEscalation wid n) s3)
                          else (Inr (), s3))
                    else
                      (Inr (), modify_worker wid (\<lambda>w. w\<lparr> consecutive_stuck_count := 0 \<rparr>) s2))))"

text \<open>
  \<open>LLMMonitorDaemon.analyze_worker\<close>: one classification pass. It returns early when
  monitoring is disabled, when the worker is unknown and when the pane gave no output
  (\<open>None\<close> or the empty string).
\<close>

definition LLMMonitorDaemon_analyze_worker :: "world \<Rightarrow> string \<Rightarrow> sys \<Rightarrow> (py_exn + unit) \<times> sys" where
  "LLMMonitorDaemon_analyze_worker wld wid s =
     (if \<not> enabled (config s) then (Inr (), s)
      else case map_of (workers s) wid of
        None \<Rightarrow> (Inr (), s)
      | Some worker \<Rightarrow>
          (case capture_pane wld (window_num worker) (max_context_lines (config s)) s of
             (Inl e, s1) \<Rightarrow> (Inl e, s1)
           | (Inr None, s1) \<Rightarrow> (Inr (), log_call WARNING (NoTerminalOutput wid) s1)
           | (Inr (Some terminal_output), s1) \<Rightarrow>
               if terminal_output = [] then (Inr (), log_call WARNING (NoTerminalOutput wid) s1)
               else
                 (case WorkerAnalyzer_analyze_worker wld wid terminal_output
                         (last_event_of wld wid) (worker_prompt_of wld wid) s1 of
                    (Inl e, s2) \<Rightarrow> (Inl e, s2)
                  | (Inr analysis, s2) \<Rightarrow> apply_analysis wld wid worker analysis s2)))"

text \<open>
  \<open>check_stale_workers\<close>: the loop over \<open>self.workers.items()\<close>, in the table's order.
  An exception that escapes a pass ends the loop (and, in \<open>run\<close>, the daemon: only
  \<open>KeyboardInterrupt\<close> is caught there).
\<close>

fun check_loop :: "world \<Rightarrow> string list \<Rightarrow> sys \<Rightarrow> (py_exn + unit) \<times> sys" where
  "check_loop wld [] s = (Inr (), s)"
| "check_loop wld (wid # rest) s =
     (case map_of (workers s) wid of
        None \<Rightarrow> check_loop wld rest s
      | Some worker \<Rightarrow>
          if is_stale (now_stale wld wid) worker (stale_threshold (config s)) then
            if status worker \<noteq> JStr ''COMPLETE'' \<and> status worker \<noteq> JStr ''STUCK'' then
              (case LLMMonitorDaemon_analyze_worker wld wid
                      (log_call INFO (CheckingStale wid) s) of
                 (Inl e, s1) \<Rightarrow> (Inl e, s1)
               | (Inr u, s1) \<Rightarrow> check_loop wld rest s1)
            else check_loop wld rest s
          else check_loop wld rest s)"


text \<open>
  Consecutive classification passes for one worker, each with the environment's answers
  of its own; an escaping exception ends the run.
\<close>

fun analyze_passes :: "world list \<Rightarrow> string \<Rightarrow> sys \<Rightarrow> (py_exn + unit) \<times> sys" where
  "analyze_passes [] wid s = (Inr (), s)"
| "analyze_passes (wld # rest) wid s =
     (case LLMMonitorDaemon_analyze_worker wld wid s of
        (Inl e, s1) \<Rightarrow> (Inl e, s1)
      | (Inr u, s1) \<Rightarrow> analyze_passes rest wid s1)"

section \<open>Observations on the log\<close>

text \<open>
  \<open>check_stale_workers\<close> logs \<open>Checking stale worker\<close> at level INFO right before each
  pass it triggers, and this is the only place that does: the number of these entries
  for a worker counts the passes the timer triggered for it. An escalation entry is the
  \<open>logging.error\<close> of \<open>analyze_worker\<close> (stuck N times in a row).
\<close>

definition stale_checks :: "string \<Rightarrow> sys \<Rightarrow> nat" where
  "stale_checks wid s = length (filter (\<lambda>e. e = (INFO, CheckingStale wid)) (logging s))"

fun is_escalation :: "string \<Rightarrow> level \<times> log_msg \<Rightarrow> bool" where
  "is_escalation wid (l, StuckEscalation w n) = (l = ERROR \<and> w = wid)"
| "is_escalation wid (l, other) = False"

definition escalations :: "string \<Rightarrow> sys \<Rightarrow> nat" where
  "escalations wid s = length (filter (is_escalation wid) (logging s))"

text \<open>The number of classifier calls made for a worker.\<close>

definition classifier_calls_for :: "string \<Rightarrow> sys \<Rightarrow> nat" where
  "classifier_calls_for wid s = length (filter (\<lambda>w. w = wid) (classifier_calls s))"

section \<open>A concrete daemon\<close>

text \<open>
  One worker \<open>doc-1\<close> in window 1, created at time 0, under the default configuration
  with a given auto-approval switch; an environment in which the pane shows a prompt,
  tmux accepts keys, the stale check reads the clock at 400 s and the classifier call
  has a given outcome; and a classifier answer with a given status and action.
\<close>

definition demo_sys :: "bool \<Rightarrow> sys" where
  "demo_sys approve =
     \<lparr> config = default_config\<lparr> auto_approve := approve \<rparr>,
       session_name = ''czarina-demo'',
       workers = [(''doc-1'', WorkerState_init ''doc-1'' 1 0)],
       total_requests = 0, total_cost = FConst 0, classifier_calls = [],
       decisions_log = [], json_log = [], send_calls = [], logging = [] \<rparr>"

definition demo_world :: "llm_outcome \<Rightarrow> world" where
  "demo_world outcome =
     \<lparr> now_stale = (\<lambda>wid. 400000000), now_log = (\<lambda>wid. 401000000),
       run_capture = (\<lambda>session window lines. Completed 0 ''Proceed? [y/n]''),
       run_send = (\<lambda>session window keys. Completed 0 []),
       last_event_of = (\<lambda>wid. None), worker_prompt_of = (\<lambda>wid. None),
       llm = (\<lambda>wid terminal_output last_event worker_prompt. outcome) \<rparr>"

definition demo_answer :: "string \<Rightarrow> string \<Rightarrow> pydict" where
  "demo_answer st act =
     [(''status'', JStr st), (''action'', JStr act), (''keys'', JStr ''y''),
      (''reasoning'', JStr ''prompt on screen''), (''confidence'', JInt 90)]"


text \<open>The concrete daemon after two passes in a row that classified \<open>doc-1\<close> as stuck.\<close>

definition demo_stuck_twice :: sys where
  "demo_stuck_twice =
     snd (analyze_passes
            [demo_world (Parsed 10 5 (JObj (demo_answer ''stuck'' ''intervene''))),
             demo_world (Parsed 10 5 (JObj (demo_answer ''stuck'' ''intervene'')))]
            ''doc-1'' (demo_sys True))"

section \<open>Properties of the environment's answers\<close>


text \<open>
  A pass in this environment classifies the worker as stuck or confused: the pane gives
  output, and the analyzer returns a decision whose status is \<open>stuck\<close> or \<open>confused\<close>
  and which carries a reasoning.
\<close>

definition classified_stuck :: "world \<Rightarrow> string \<Rightarrow> sys \<Rightarrow> WorkerState \<Rightarrow> bool" where
  "classified_stuck wld wid s worker =
     (case run_capture wld (session_name s) (window_num worker) (max_context_lines (config s)) of
        ProcRaised e \<Rightarrow> False
      | Completed returncode out \<Rightarrow>
          returncode = 0 \<and> out \<noteq> [] \<and>
          (case fst (WorkerAnalyzer_analyze_worker wld wid out (last_event_of wld wid)
                       (worker_prompt_of wld wid) s) of
             Inl e \<Rightarrow> False
           | Inr r \<Rightarrow>
               (map_of r ''status'' = Some (JStr ''stuck'')
                  \<or> map_of r ''status'' = Some (JStr ''confused''))
               \<and> map_of r ''reasoning'' \<noteq> None))"

section \<open>Arithmetic of the staleness test\<close>



section \<open>What each operation leaves unchanged\<close>

lemma log_call_fields [simp]:
  "config (log_call l m s) = config s"
  "session_name (log_call l m s) = session_name s"
  "workers (log_call l m s) = workers s"
  "total_requests (log_call l m s) = total_requests s"
  "total_cost (log_call l m s) = total_cost s"
  "decisions_log (log_call l m s) = decisions_log s"
  "json_log (log_call l m s) = json_log s"
  "send_calls (log_call l m s) = send_calls s"
  "classifier_calls (log_call l m s) = classifier_calls s"
  "logging (log_call l m s) = logging s @ [(l, m)]"
  by (simp_all add: log_call_def)

lemma log_decision_fields [simp]:
  "config (log_decision t wid a s) = config s"
  "session_name (log_decision t wid a s) = session_name s"
  "workers (log_decision t wid a s) = workers s"
  "total_requests (log_decision t wid a s) = total_requests s"
  "total_cost (log_decision t wid a s) = total_cost s"
  "decisions_log (log_decision t wid a s) = decisions_log s @ [hline_of (decision_of t wid a)]"
  "json_log (log_decision t wid a s) = json_log s @ [decision_of t wid a]"
  "send_calls (log_decision t wid a s) = send_calls s"
  "classifier_calls (log_decision t wid a s) = classifier_calls s"
  "logging (log_decision t wid a s) = logging s"
  by (simp_all add: log_decision_def Let_def)

lemma send_keys_fields [simp]:
  "config (snd (send_keys wld window keys s)) = config s"
  "session_name (snd (send_keys wld window keys s)) = session_name s"
  "workers (snd (send_keys wld window keys s)) = workers s"
  "total_requests (snd (send_keys wld window keys s)) = total_requests s"
  "total_cost (snd (send_keys wld window keys s)) = total_cost s"
  "decisions_log (snd (send_keys wld window keys s)) = decisions_log s"
  "json_log (snd (send_keys wld window keys s)) = json_log s"
  "send_calls (snd (send_keys wld window keys s)) = send_calls s @ [(window, keys)]"
  "classifier_calls (snd (send_keys wld window keys s)) = classifier_calls s"
  by (simp_all add: send_keys_def Let_def split: sum.splits)

lemma send_keys_returns: "\<exists>b. fst (send_keys wld window keys s) = Inr b"
  by (auto simp: send_keys_def Let_def split: sum.splits)

lemma execute_fields [simp]:
  "decisions_log (snd (execute wld wid window a s)) =
     decisions_log s @ [hline_of (decision_of (now_log wld wid) wid a)]"
  "json_log (snd (execute wld wid window a s)) = json_log s @ [decision_of (now_log wld wid) wid a]"
  "config (snd (execute wld wid window a s)) = config s"
  "workers (snd (execute wld wid window a s)) = workers s"
  "session_name (snd (execute wld wid window a s)) = session_name s"
  "total_requests (snd (execute wld wid window a s)) = total_requests s"
  "total_cost (snd (execute wld wid window a s)) = total_cost s"
  "classifier_calls (snd (execute wld wid window a s)) = classifier_calls s"
  by (simp_all add: execute_def Let_def case_prod_beta split: option.splits sum.splits)

section \<open>The snapshot operation\<close>

text \<open>
  Claim C9. \<open>capture_pane\<close> is total at its interface: whatever the subprocess does, the
  method returns (no exception leaves it), and what it returns is the captured text
  when the process completed with return code 0 and \<open>None\<close> otherwise (a non-zero
  return code, a timeout, any other exception raised by \<open>subprocess.run\<close>).
\<close>

theorem capture_pane_total:
  "fst (capture_pane wld window lines s) =
     (case run_capture wld (session_name s) window lines of
        Completed returncode stdout \<Rightarrow> if returncode = 0 then Inr (Some stdout) else Inr None
      | ProcRaised e \<Rightarrow> Inr None)"
  by (simp add: capture_pane_def capture_pane_try_def split: proc.splits)

theorem capture_pane_total_witness:
  "fst (capture_pane (demo_world (CallRaised ''timeout'')) 1 100 (demo_sys True)) = Inr (Some ''Proceed? [y/n]'')
   \<and> fst (capture_pane ((demo_world (CallRaised ''timeout''))
            \<lparr> run_capture := (\<lambda>session window lines. ProcRaised (TimeoutExpired ''timed out after 5 seconds'')) \<rparr>)
          1 100 (demo_sys True)) = Inr None
   \<and> fst (capture_pane ((demo_world (CallRaised ''timeout''))
            \<lparr> run_capture := (\<lambda>session window lines. Completed 1 ''no session'') \<rparr>)
          1 100 (demo_sys True)) = Inr None"
  using capture_pane_total [of "demo_world (CallRaised ''timeout'')" 1 100 "demo_sys True"]
    capture_pane_total [of "(demo_world (CallRaised ''timeout''))
            \<lparr> run_capture := (\<lambda>session window lines. ProcRaised (TimeoutExpired ''timed out after 5 seconds'')) \<rparr>" 1 100 "demo_sys True"]
    capture_pane_total [of "(demo_world (CallRaised ''timeout''))
            \<lparr> run_capture := (\<lambda>session window lines. Completed 1 ''no session'') \<rparr>" 1 100 "demo_sys True"]
  by (simp add: demo_world_def)

section \<open>The executor's audit trail\<close>

text \<open>
  Claim C7. With the auto-approval switch off, executing a decision whose action is
  \<open>approve\<close> or \<open>send_keys\<close> makes no call of \<open>send_keys\<close>, returns \<open>False\<close> without
  raising, and appends exactly one record to the human-readable log and exactly one to
  the JSON log.
\<close>

theorem execute_auto_approve_disabled:
  assumes "\<not> auto_approve (config s)"
    and "map_of analysis ''action'' = Some (JStr ''approve'')
         \<or> map_of analysis ''action'' = Some (JStr ''send_keys'')"
  shows "fst (execute wld wid window analysis s) = Inr False
     \<and> send_calls (snd (execute wld wid window analysis s)) = send_calls s
     \<and> decisions_log (snd (execute wld wid window analysis s)) =
         decisions_log s @ [hline_of (decision_of (now_log wld wid) wid analysis)]
     \<and> json_log (snd (execute wld wid window analysis s)) =
         json_log s @ [decision_of (now_log wld wid) wid analysis]"
  using assms by (auto simp: execute_def Let_def dict_get_def)

theorem execute_auto_approve_disabled_witness:
  "fst (execute (demo_world (CallRaised ''unused'')) ''doc-1'' 1 (demo_answer ''stuck'' ''approve'') (demo_sys False)) = Inr False
   \<and> send_calls (snd (execute (demo_world (CallRaised ''unused'')) ''doc-1'' 1 (demo_answer ''stuck'' ''approve'') (demo_sys False))) = []
   \<and> length (decisions_log (snd (execute (demo_world (CallRaised ''unused'')) ''doc-1'' 1 (demo_answer ''stuck'' ''approve'') (demo_sys False)))) = 1
   \<and> length (json_log (snd (execute (demo_world (CallRaised ''unused'')) ''doc-1'' 1 (demo_answer ''stuck'' ''approve'') (demo_sys False)))) = 1"
  using execute_auto_approve_disabled [of "demo_sys False" "demo_answer ''stuck'' ''approve''"
     "demo_world (CallRaised ''unused'')" "''doc-1''" 1]
  by (simp add: demo_sys_def demo_answer_def default_config_def)

text \<open>
  Claim C10. For a decision whose action is none of \<open>none\<close>, \<open>intervene\<close>,
  \<open>approve\<close>, \<open>send_keys\<close>, \<open>execute\<close> returns \<open>False\<close> without raising, makes no
  call of \<open>send_keys\<close>, and appends the decision record to both logs: to the
  human-readable log the line with the timestamp, the worker, and the decision's status,
  action, confidence and reasoning; to the JSON log the dict of the nine fields, each
  read with \<open>analysis.get\<close> (\<open>None\<close> for a missing key, 0 for a missing cost, the
  empty dict for missing tokens). The auto-approval switch plays no part.
\<close>

theorem execute_unrecognized_action:
  assumes "map_of analysis ''action'' = Some action"
    and "action \<noteq> JStr ''none''" "action \<noteq> JStr ''intervene''"
    and "action \<noteq> JStr ''approve''" "action \<noteq> JStr ''send_keys''"
  shows "(let get = (\<lambda>k dflt. case map_of analysis k of None \<Rightarrow> dflt | Some v \<Rightarrow> v) in
     fst (execute wld wid window analysis s) = Inr False
     \<and> send_calls (snd (execute wld wid window analysis s)) = send_calls s
     \<and> decisions_log (snd (execute wld wid window analysis s)) =
         decisions_log s @
           [HLine (now_log wld wid) wid (get ''status'' JNull) action
              (get ''confidence'' JNull) (get ''reasoning'' JNull)]
     \<and> json_log (snd (execute wld wid window analysis s)) =
         json_log s @
           [\<lparr> d_timestamp = now_log wld wid, d_worker = wid,
              d_status = get ''status'' JNull, d_action = action,
              d_keys = get ''keys'' JNull, d_reasoning = get ''reasoning'' JNull,
              d_confidence = get ''confidence'' JNull, d_cost = get ''cost'' (JInt 0),
              d_tokens = get ''tokens'' (JObj []) \<rparr>])"
  using assms
  by (auto simp: execute_def Let_def dict_get_def log_decision_def decision_of_def hline_of_def)

theorem execute_unrecognized_action_witness:
  "fst (execute (demo_world (CallRaised ''unused'')) ''doc-1'' 1 (demo_answer ''stuck'' ''restart'') (demo_sys True)) = Inr False
   \<and> send_calls (snd (execute (demo_world (CallRaised ''unused'')) ''doc-1'' 1 (demo_answer ''stuck'' ''restart'') (demo_sys True))) = []
   \<and> decisions_log (snd (execute (demo_world (CallRaised ''unused'')) ''doc-1'' 1 (demo_answer ''stuck'' ''restart'') (demo_sys True)))
      = [HLine 401000000 ''doc-1'' (JStr ''stuck'') (JStr ''restart'') (JInt 90) (JStr ''prompt on screen'')]
   \<and> json_log (snd (execute (demo_world (CallRaised ''unused'')) ''doc-1'' 1 (demo_answer ''stuck'' ''restart'') (demo_sys True)))
      = [\<lparr> d_timestamp = 401000000, d_worker = ''doc-1'', d_status = JStr ''stuck'',
            d_action = JStr ''restart'', d_keys = JStr ''y'',
            d_reasoning = JStr ''prompt on screen'', d_confidence = JInt 90,
            d_cost = JInt 0, d_tokens = JObj [] \<rparr>]"
  using execute_unrecognized_action [of "demo_answer ''stuck'' ''restart''" "JStr ''restart''"
     "demo_world (CallRaised ''unused'')" "''doc-1''" 1 "demo_sys True"]
  by (simp add: demo_sys_def demo_world_def demo_answer_def default_config_def
        decision_of_def hline_of_def dict_get_def)

section \<open>Staleness\<close>

text \<open>
  Claim C3 says that \<open>is_stale\<close> holds exactly when the time elapsed since the last
  activity exceeds the threshold. The method compares \<open>timedelta.seconds\<close>, the seconds
  component of the difference, which starts again from 0 after every full day: for a
  worker created at time 0 and last active then, at one day and ten seconds \<open>is_stale\<close>
  with threshold 300 is false although the elapsed time exceeds 300 seconds.
\<close>

theorem is_stale_misses_day_wrap:
  "is_stale ((86400 + 10) * 1000000) (WorkerState_init ''doc-1'' 1 0) 300 = False
   \<and> (86400 + 10) * 1000000 - last_activity (WorkerState_init ''doc-1'' 1 0) > 300 * 1000000"
  by (simp add: is_stale_def timedelta_seconds_def WorkerState_init_def)

section \<open>The analyzer's boundary\<close>

lemma after_response_fields [simp]:
  "config (snd (after_response wid i n parsed s)) = config s"
  "session_name (snd (after_response wid i n parsed s)) = session_name s"
  "workers (snd (after_response wid i n parsed s)) = workers s"
  "decisions_log (snd (after_response wid i n parsed s)) = decisions_log s"
  "json_log (snd (after_response wid i n parsed s)) = json_log s"
  "send_calls (snd (after_response wid i n parsed s)) = send_calls s"
  "total_requests (snd (after_response wid i n parsed s)) = total_requests s"
  "classifier_calls (snd (after_response wid i n parsed s)) = classifier_calls s"
  by (simp_all add: after_response_def Let_def split: sum.splits option.splits)

lemma analyze_worker_try_fields [simp]:
  "config (snd (analyze_worker_try wid outcome s)) = config s"
  "session_name (snd (analyze_worker_try wid outcome s)) = session_name s"
  "workers (snd (analyze_worker_try wid outcome s)) = workers s"
  "decisions_log (snd (analyze_worker_try wid outcome s)) = decisions_log s"
  "json_log (snd (analyze_worker_try wid outcome s)) = json_log s"
  "send_calls (snd (analyze_worker_try wid outcome s)) = send_calls s"
  "total_requests (snd (analyze_worker_try wid outcome s)) = total_requests s + 1"
  "classifier_calls (snd (analyze_worker_try wid outcome s)) = classifier_calls s @ [wid]"
  by (simp_all add: analyze_worker_try_def Let_def split: llm_outcome.splits)

lemma analyzer_fields [simp]:
  "config (snd (WorkerAnalyzer_analyze_worker wld wid out ev pr s)) = config s"
  "session_name (snd (WorkerAnalyzer_analyze_worker wld wid out ev pr s)) = session_name s"
  "workers (snd (WorkerAnalyzer_analyze_worker wld wid out ev pr s)) = workers s"
  "decisions_log (snd (WorkerAnalyzer_analyze_worker wld wid out ev pr s)) = decisions_log s"
  "json_log (snd (WorkerAnalyzer_analyze_worker wld wid out ev pr s)) = json_log s"
  "send_calls (snd (WorkerAnalyzer_analyze_worker wld wid out ev pr s)) = send_calls s"
  "total_requests (snd (WorkerAnalyzer_analyze_worker wld wid out ev pr s)) = total_requests s + 1"
  "classifier_calls (snd (WorkerAnalyzer_analyze_worker wld wid out ev pr s)) =
     classifier_calls s @ [wid]"
  by (simp_all add: WorkerAnalyzer_analyze_worker_def Let_def case_prod_beta
        split: sum.splits py_exn.splits)

text \<open>The result of the \<open>try\<close> block does not depend on the state.\<close>

lemma analyze_worker_try_result:
  "fst (analyze_worker_try wid outcome s) = fst (analyze_worker_try wid outcome t)"
  by (simp add: analyze_worker_try_def after_response_def Let_def
        split: llm_outcome.splits sum.splits option.splits)

lemma analyzer_result:
  "fst (WorkerAnalyzer_analyze_worker wld wid out ev pr s) =
   fst (WorkerAnalyzer_analyze_worker wld wid out ev pr t)"
  using analyze_worker_try_result [of wid "llm wld wid out ev pr" s t]
  by (simp add: WorkerAnalyzer_analyze_worker_def Let_def case_prod_beta
        split: sum.splits py_exn.splits)

text \<open>
  After a parsed answer the \<open>try\<close> block raises no \<open>JSONDecodeError\<close>, and neither
  does it when the content could not be read.
\<close>

lemma parsed_raises_no_decode_error:
  "fst (analyze_worker_try wid (Parsed i n v) s) \<noteq> Inl (JSONDecodeError m)"
  "fst (analyze_worker_try wid (BadContent i n m') s) \<noteq> Inl (JSONDecodeError m)"
  "fst (analyze_worker_try wid (CallRaised m') s) \<noteq> Inl (JSONDecodeError m)"
  by (auto simp: analyze_worker_try_def after_response_def analysis_cost_try_def Let_def
        split: sum.splits option.splits jvalue.splits if_splits elim: setitem.elims)

text \<open>
  The only exception that leaves the analyzer is the \<open>UnboundLocalError\<close> of the first
  handler, and it leaves it exactly when the call itself raised \<open>JSONDecodeError\<close>.
\<close>

lemma analyzer_raises_iff:
  "(\<exists>r. fst (WorkerAnalyzer_analyze_worker wld wid out ev pr s) = Inr r)
   \<or> (fst (WorkerAnalyzer_analyze_worker wld wid out ev pr s) = Inl (UnboundLocalError ''response'')
       \<and> (\<exists>m. llm wld wid out ev pr = CallRaisedDecodeError m))"
proof (cases "llm wld wid out ev pr")
  case (CallRaised m)
  then show ?thesis
    by (simp add: WorkerAnalyzer_analyze_worker_def analyze_worker_try_def Let_def)
next
  case (CallRaisedDecodeError m)
  then show ?thesis
    by (simp add: WorkerAnalyzer_analyze_worker_def analyze_worker_try_def Let_def)
next
  case (BadContent i n m)
  then show ?thesis
    by (simp add: WorkerAnalyzer_analyze_worker_def analyze_worker_try_def after_response_def
          analysis_cost_try_def Let_def)
next
  case (Malformed i n raw m)
  then show ?thesis
    by (simp add: WorkerAnalyzer_analyze_worker_def analyze_worker_try_def after_response_def
          analysis_cost_try_def Let_def)
next
  case (Parsed i n v)
  have "\<And>m. fst (analyze_worker_try wid (Parsed i n v) s) \<noteq> Inl (JSONDecodeError m)"
    by (rule parsed_raises_no_decode_error)
  then show ?thesis using Parsed
    by (auto simp: WorkerAnalyzer_analyze_worker_def Let_def case_prod_beta
          split: sum.splits py_exn.splits)
qed

lemma analyze_worker_try_keys:
  assumes "fst (analyze_worker_try wid outcome s) = Inr r"
  shows "map_of r ''status'' \<noteq> None \<and> map_of r ''action'' \<noteq> None \<and> map_of r ''confidence'' \<noteq> None"
  using assms
  by (auto simp: analyze_worker_try_def after_response_def Let_def
        split: llm_outcome.splits sum.splits option.splits)

lemma error_analysis_keys [simp]:
  "map_of (error_analysis m) ''status'' = Some (JStr ''error'')"
  "map_of (error_analysis m) ''action'' = Some (JStr ''none'')"
  "map_of (error_analysis m) ''reasoning'' = Some (JStr m)"
  "map_of (error_analysis m) ''confidence'' = Some (JInt 0)"
  by (simp_all add: error_analysis_def)

lemma analyzer_keys:
  assumes "fst (WorkerAnalyzer_analyze_worker wld wid out ev pr s) = Inr r"
  shows "map_of r ''status'' \<noteq> None \<and> map_of r ''action'' \<noteq> None \<and> map_of r ''confidence'' \<noteq> None"
proof (cases "fst (analyze_worker_try wid (llm wld wid out ev pr) s)")
  case (Inl e)
  then show ?thesis using assms
    by (cases e; cases "response_text (llm wld wid out ev pr)")
       (auto simp: WorkerAnalyzer_analyze_worker_def Let_def case_prod_beta)
next
  case (Inr r')
  then have "r' = r" using assms
    by (simp add: WorkerAnalyzer_analyze_worker_def Let_def case_prod_beta)
  then show ?thesis using Inr analyze_worker_try_keys by blast
qed

text \<open>
  Every other failure of the call is turned into the error decision: a call that raises
  an exception other than \<open>JSONDecodeError\<close> (a timeout, an API error), a response
  without readable text, a text that is not valid JSON.
\<close>

lemma analyzer_failure_decision:
  assumes "llm wld wid out ev pr = CallRaised m
         \<or> llm wld wid out ev pr = BadContent i n m
         \<or> llm wld wid out ev pr = Malformed i n raw m"
  shows "\<exists>msg. fst (WorkerAnalyzer_analyze_worker wld wid out ev pr s) = Inr (error_analysis msg)"
  using assms
  by (auto simp: WorkerAnalyzer_analyze_worker_def analyze_worker_try_def after_response_def
        analysis_cost_try_def Let_def)

lemma analyzer_call_raised:
  assumes "llm wld wid out ev pr = CallRaised m"
  shows "fst (WorkerAnalyzer_analyze_worker wld wid out ev pr s) =
           Inr (error_analysis (''Analysis failed: '' @ m))"
  using assms
  by (simp add: WorkerAnalyzer_analyze_worker_def analyze_worker_try_def Let_def)

section \<open>The worker table and the log counts under each operation\<close>

lemma map_entry_keys: "map fst (AList.map_entry k f xs) = map fst xs"
  by (induction xs) auto

lemma modify_worker_fields [simp]:
  "config (modify_worker wid f s) = config s"
  "session_name (modify_worker wid f s) = session_name s"
  "total_requests (modify_worker wid f s) = total_requests s"
  "total_cost (modify_worker wid f s) = total_cost s"
  "decisions_log (modify_worker wid f s) = decisions_log s"
  "json_log (modify_worker wid f s) = json_log s"
  "send_calls (modify_worker wid f s) = send_calls s"
  "logging (modify_worker wid f s) = logging s"
  "classifier_calls (modify_worker wid f s) = classifier_calls s"
  "map fst (workers (modify_worker wid f s)) = map fst (workers s)"
  by (simp_all add: modify_worker_def map_entry_keys)

lemma modify_worker_lookup [simp]:
  "map_of (workers (modify_worker wid f s)) k =
     (if k = wid then map_option f (map_of (workers s) wid) else map_of (workers s) k)"
  by (simp add: modify_worker_def map_of_map_entry split: option.splits)

lemma capture_pane_fields [simp]:
  "config (snd (capture_pane wld window lines s)) = config s"
  "session_name (snd (capture_pane wld window lines s)) = session_name s"
  "workers (snd (capture_pane wld window lines s)) = workers s"
  "total_requests (snd (capture_pane wld window lines s)) = total_requests s"
  "decisions_log (snd (capture_pane wld window lines s)) = decisions_log s"
  "json_log (snd (capture_pane wld window lines s)) = json_log s"
  "send_calls (snd (capture_pane wld window lines s)) = send_calls s"
  "classifier_calls (snd (capture_pane wld window lines s)) = classifier_calls s"
  by (simp_all add: capture_pane_def split: sum.splits)

lemma capture_pane_completed:
  assumes "run_capture wld (session_name s) window lines = Completed 0 out"
  shows "capture_pane wld window lines s = (Inr (Some out), s)"
  using assms by (simp add: capture_pane_def capture_pane_try_def)

lemma stale_checks_log_call [simp]:
  "stale_checks w (log_call l m s) =
     stale_checks w s + (if l = INFO \<and> m = CheckingStale w then 1 else 0)"
  by (simp add: stale_checks_def)

lemma escalations_log_call [simp]:
  "escalations w (log_call l m s) = escalations w s + (if is_escalation w (l, m) then 1 else 0)"
  by (simp add: escalations_def)

lemma calls_log_call [simp]:
  "classifier_calls_for w (log_call l m s) = classifier_calls_for w s"
  by (simp add: classifier_calls_for_def)

lemma counts_log_decision [simp]:
  "stale_checks w (log_decision t wid a s) = stale_checks w s"
  "escalations w (log_decision t wid a s) = escalations w s"
  "classifier_calls_for w (log_decision t wid a s) = classifier_calls_for w s"
  by (simp_all add: stale_checks_def escalations_def classifier_calls_for_def)

lemma counts_modify_worker [simp]:
  "stale_checks w (modify_worker wid f s) = stale_checks w s"
  "escalations w (modify_worker wid f s) = escalations w s"
  "classifier_calls_for w (modify_worker wid f s) = classifier_calls_for w s"
  by (simp_all add: stale_checks_def escalations_def classifier_calls_for_def)

lemma counts_send_keys [simp]:
  "stale_checks w (snd (send_keys wld window keys s)) = stale_checks w s"
  "escalations w (snd (send_keys wld window keys s)) = escalations w s"
  "classifier_calls_for w (snd (send_keys wld window keys s)) = classifier_calls_for w s"
  by (simp_all add: send_keys_def Let_def stale_checks_def escalations_def log_call_def
        classifier_calls_for_def split: sum.splits)

lemma counts_capture_pane [simp]:
  "stale_checks w (snd (capture_pane wld window lines s)) = stale_checks w s"
  "escalations w (snd (capture_pane wld window lines s)) = escalations w s"
  "classifier_calls_for w (snd (capture_pane wld window lines s)) = classifier_calls_for w s"
  by (simp_all add: capture_pane_def split: sum.splits)

lemma counts_execute [simp]:
  "stale_checks w (snd (execute wld wid window a s)) = stale_checks w s"
  "escalations w (snd (execute wld wid window a s)) = escalations w s"
  "classifier_calls_for w (snd (execute wld wid window a s)) = classifier_calls_for w s"
  by (simp_all add: execute_def Let_def case_prod_beta split: option.splits sum.splits)

lemma counts_analyze_worker_try [simp]:
  "stale_checks w (snd (analyze_worker_try wid outcome s)) = stale_checks w s"
  "escalations w (snd (analyze_worker_try wid outcome s)) = escalations w s"
  by (simp_all add: analyze_worker_try_def after_response_def Let_def stale_checks_def
        escalations_def log_call_def split: llm_outcome.splits sum.splits option.splits)

lemma counts_analyzer [simp]:
  "stale_checks w (snd (WorkerAnalyzer_analyze_worker wld wid out ev pr s)) = stale_checks w s"
  "escalations w (snd (WorkerAnalyzer_analyze_worker wld wid out ev pr s)) = escalations w s"
  by (simp_all add: WorkerAnalyzer_analyze_worker_def Let_def case_prod_beta
        split: sum.splits py_exn.splits)

lemma calls_analyzer [simp]:
  "classifier_calls_for w (snd (WorkerAnalyzer_analyze_worker wld wid out ev pr s)) =
     classifier_calls_for w s + (if w = wid then 1 else 0)"
  by (simp add: classifier_calls_for_def)

lemma send_keys_not_raised [simp]: "fst (send_keys wld window keys s) \<noteq> Inl e"
  by (simp add: send_keys_def Let_def split: sum.splits)

lemma execute_returns:
  assumes "map_of a ''reasoning'' \<noteq> None"
  shows "\<exists>b. fst (execute wld wid window a s) = Inr b"
  using assms
  by (auto simp: execute_def Let_def case_prod_beta split: option.splits sum.splits)

section \<open>One classification pass\<close>

lemma apply_analysis_frame [simp]:
  "config (snd (apply_analysis wld wid worker a s)) = config s"
  "session_name (snd (apply_analysis wld wid worker a s)) = session_name s"
  "map fst (workers (snd (apply_analysis wld wid worker a s))) = map fst (workers s)"
  "stale_checks w (snd (apply_analysis wld wid worker a s)) = stale_checks w s"
  "classifier_calls_for w (snd (apply_analysis wld wid worker a s)) = classifier_calls_for w s"
  by (simp_all add: apply_analysis_def Let_def case_prod_beta split: option.splits sum.splits)


lemma apply_analysis_logs:
  assumes "map_of a ''status'' = Some st" "map_of a ''action'' = Some act"
  shows "decisions_log (snd (apply_analysis wld wid worker a s)) =
           decisions_log s @ (if act \<noteq> JStr ''none''
                              then [hline_of (decision_of (now_log wld wid) wid a)] else [])"
    and "json_log (snd (apply_analysis wld wid worker a s)) =
           json_log s @ (if act \<noteq> JStr ''none''
                         then [decision_of (now_log wld wid) wid a] else [])"
  using assms
  by (simp_all add: apply_analysis_def Let_def case_prod_beta split: option.splits sum.splits)

lemma apply_analysis_status:
  assumes "map_of a ''status'' = Some st" "map_of (workers s) wid = Some w0"
  shows "map_option status (map_of (workers (snd (apply_analysis wld wid worker a s))) wid) = Some st"
    and "map_option last_analysis (map_of (workers (snd (apply_analysis wld wid worker a s))) wid) = Some (Some a)"
  using assms
  by (simp_all add: apply_analysis_def Let_def case_prod_beta split: option.splits sum.splits)

lemma apply_analysis_returns:
  assumes "map_of a ''status'' = Some st" "map_of a ''action'' = Some act"
    and "act = JStr ''none'' \<or> map_of a ''reasoning'' \<noteq> None"
  shows "fst (apply_analysis wld wid worker a s) = Inr ()"
proof (cases "act = JStr ''none''")
  case True
  then show ?thesis using assms(1,2) by (simp add: apply_analysis_def Let_def)
next
  case False
  then obtain b where "fst (execute wld wid (window_num worker) a
      (modify_worker wid (\<lambda>w. w\<lparr>status := st\<rparr>)
        (modify_worker wid (\<lambda>w. w\<lparr>last_analysis := Some a\<rparr>) s))) = Inr b"
    using assms(3) execute_returns by blast
  then show ?thesis using assms(1,2) False
    by (simp add: apply_analysis_def Let_def case_prod_beta)
qed

lemma apply_analysis_count:
  assumes "map_of a ''status'' = Some st" "map_of (workers s) wid = Some w0"
    and "fst (apply_analysis wld wid worker a s) = Inr ()"
  shows "map_option consecutive_stuck_count (map_of (workers (snd (apply_analysis wld wid worker a s))) wid)
         = Some (if st = JStr ''stuck'' \<or> st = JStr ''confused''
                 then consecutive_stuck_count worker + 1 else 0)"
  using assms
  by (auto simp: apply_analysis_def Let_def case_prod_beta split: option.splits sum.splits if_splits)

lemma apply_analysis_escalations:
  assumes "map_of a ''status'' = Some st"
    and "fst (apply_analysis wld wid worker a s) = Inr ()"
  shows "escalations w (snd (apply_analysis wld wid worker a s))
         = escalations w s +
           (if (st = JStr ''stuck'' \<or> st = JStr ''confused'') \<and> w = wid
               \<and> 3 \<le> consecutive_stuck_count worker + 1 then 1 else 0)"
  using assms
  by (auto simp: apply_analysis_def Let_def case_prod_beta split: option.splits sum.splits if_splits)

lemma pass_frame [simp]:
  "config (snd (LLMMonitorDaemon_analyze_worker wld wid s)) = config s"
  "session_name (snd (LLMMonitorDaemon_analyze_worker wld wid s)) = session_name s"
  "map fst (workers (snd (LLMMonitorDaemon_analyze_worker wld wid s))) = map fst (workers s)"
  "stale_checks w (snd (LLMMonitorDaemon_analyze_worker wld wid s)) = stale_checks w s"
  by (simp_all add: LLMMonitorDaemon_analyze_worker_def case_prod_beta
        split: option.splits sum.splits)


lemma pass_unfold:
  assumes "enabled (config s)" "map_of (workers s) wid = Some worker"
    and "run_capture wld (session_name s) (window_num worker) (max_context_lines (config s))
         = Completed 0 out" "out \<noteq> []"
    and "fst (WorkerAnalyzer_analyze_worker wld wid out (last_event_of wld wid)
               (worker_prompt_of wld wid) s) = Inr r"
  shows "LLMMonitorDaemon_analyze_worker wld wid s =
     apply_analysis wld wid worker r
       (snd (WorkerAnalyzer_analyze_worker wld wid out (last_event_of wld wid)
               (worker_prompt_of wld wid) s))"
  using assms
  by (simp add: LLMMonitorDaemon_analyze_worker_def capture_pane_completed case_prod_beta)

lemma dict_set_lookup [simp]:
  "map_of (dict_set k v d) k' = (if k' = k then Some v else map_of d k')"
  by (simp add: dict_set_def update_conv')

lemma demo_tokens_in_range [simp]: "\<not> int_too_large 10" "\<not> int_too_large 5"
  by (simp_all add: int_too_large_def)

lemmas demo_defs = demo_sys_def demo_world_def demo_answer_def default_config_def
  WorkerState_init_def

lemmas pass_defs = LLMMonitorDaemon_analyze_worker_def capture_pane_def capture_pane_try_def
  WorkerAnalyzer_analyze_worker_def analyze_worker_try_def after_response_def
  analysis_cost_try_def apply_analysis_def execute_def
  send_keys_def send_keys_try_def log_decision_def decision_of_def hline_of_def
  modify_worker_def log_call_def dict_set_def dict_get_def error_analysis_def Let_def

section \<open>Which decisions reach the audit log\<close>

text \<open>
  A pass that reaches the classifier appends one record to each log file when the
  decision's action differs from \<open>'none'\<close>, and nothing when it is \<open>'none'\<close>.
\<close>

lemma pass_audit_records:
  assumes "enabled (config s)" "map_of (workers s) wid = Some worker"
    and "run_capture wld (session_name s) (window_num worker) (max_context_lines (config s))
         = Completed 0 out" "out \<noteq> []"
    and "fst (WorkerAnalyzer_analyze_worker wld wid out (last_event_of wld wid)
               (worker_prompt_of wld wid) s) = Inr r"
    and "map_of r ''action'' = Some act"
  shows "decisions_log (snd (LLMMonitorDaemon_analyze_worker wld wid s)) =
           decisions_log s @ (if act \<noteq> JStr ''none''
                              then [hline_of (decision_of (now_log wld wid) wid r)] else [])"
    and "json_log (snd (LLMMonitorDaemon_analyze_worker wld wid s)) =
           json_log s @ (if act \<noteq> JStr ''none''
                         then [decision_of (now_log wld wid) wid r] else [])"
proof -
  obtain st where st: "map_of r ''status'' = Some st"
    using analyzer_keys [OF assms(5)] by auto
  have pass: "LLMMonitorDaemon_analyze_worker wld wid s =
      apply_analysis wld wid worker r
        (snd (WorkerAnalyzer_analyze_worker wld wid out (last_event_of wld wid)
                (worker_prompt_of wld wid) s))"
    using assms(1-5) by (rule pass_unfold)
  show "decisions_log (snd (LLMMonitorDaemon_analyze_worker wld wid s)) =
           decisions_log s @ (if act \<noteq> JStr ''none''
                              then [hline_of (decision_of (now_log wld wid) wid r)] else [])"
    unfolding pass using apply_analysis_logs(1) [OF st assms(6)] by simp
  show "json_log (snd (LLMMonitorDaemon_analyze_worker wld wid s)) =
           json_log s @ (if act \<noteq> JStr ''none''
                         then [decision_of (now_log wld wid) wid r] else [])"
    unfolding pass using apply_analysis_logs(2) [OF st assms(6)] by simp
qed

text \<open>
  Claim C1 says that every classification pass records its decision through the
  executor, also when the action is \<open>none\<close>. \<open>LLMMonitorDaemon.analyze_worker\<close> calls
  the executor only when the action differs from \<open>'none'\<close>: for the classifier answer
  status \<open>working\<close>, action \<open>none\<close>, the pass returns normally, the classifier was
  called once and the worker's status is updated, and both log files are still empty.
\<close>

theorem none_decision_not_logged:
  "fst (LLMMonitorDaemon_analyze_worker
     (demo_world (Parsed 10 5 (JObj (demo_answer ''working'' ''none'')))) ''doc-1'' (demo_sys True))
   = Inr ()
   \<and> total_requests (snd (LLMMonitorDaemon_analyze_worker
     (demo_world (Parsed 10 5 (JObj (demo_answer ''working'' ''none'')))) ''doc-1'' (demo_sys True))) = 1
   \<and> map_option status (map_of (workers (snd (LLMMonitorDaemon_analyze_worker
     (demo_world (Parsed 10 5 (JObj (demo_answer ''working'' ''none'')))) ''doc-1'' (demo_sys True)))) ''doc-1'')
      = Some (JStr ''working'')
   \<and> decisions_log (snd (LLMMonitorDaemon_analyze_worker
     (demo_world (Parsed 10 5 (JObj (demo_answer ''working'' ''none'')))) ''doc-1'' (demo_sys True))) = []
   \<and> json_log (snd (LLMMonitorDaemon_analyze_worker
     (demo_world (Parsed 10 5 (JObj (demo_answer ''working'' ''none'')))) ''doc-1'' (demo_sys True))) = []"
  by (simp add: pass_defs demo_defs)

section \<open>What leaves the analyzer\<close>

text \<open>
  Claim C6 says that no failure of the classifier call is propagated past the analyzer.
  The first handler, \<open>except json.JSONDecodeError\<close>, formats
  \<open>response.content[0].text\<close> for its debug message. When it is the call itself that
  raised the \<open>JSONDecodeError\<close>, \<open>response\<close> was never assigned: the handler raises
  \<open>UnboundLocalError\<close>, which leaves the analyzer and the daemon's pass.
\<close>

theorem call_decode_error_escapes:
  "fst (WorkerAnalyzer_analyze_worker
          (demo_world (CallRaisedDecodeError ''Expecting value: line 1 column 1 (char 0)''))
          ''doc-1'' ''Proceed? [y/n]'' None None (demo_sys True))
     = Inl (UnboundLocalError ''response'')
   \<and> fst (LLMMonitorDaemon_analyze_worker
          (demo_world (CallRaisedDecodeError ''Expecting value: line 1 column 1 (char 0)''))
          ''doc-1'' (demo_sys True))
     = Inl (UnboundLocalError ''response'')"
  by (simp add: pass_defs demo_defs)

section \<open>No validation of the classifier's answer\<close>

lemma analyzer_parsed_object:
  assumes "llm wld wid out ev pr = Parsed i n (JObj d)"
    and "\<not> int_too_large i" "\<not> int_too_large n"
    and "map_of d ''status'' = Some st" "map_of d ''action'' = Some act"
    and "map_of d ''confidence'' = Some c"
  shows "fst (WorkerAnalyzer_analyze_worker wld wid out ev pr s) =
     Inr (dict_set ''tokens'' (JObj [(''input'', JInt i), (''output'', JInt n)])
           (dict_set ''cost'' (JFloat (analysis_cost i n)) d))"
  using assms
  by (simp add: WorkerAnalyzer_analyze_worker_def analyze_worker_try_def after_response_def
        analysis_cost_try_def Let_def)

text \<open>
  Claim C4 says that a parsed answer whose status or action is outside the enumerations
  is rejected like a parse failure. The analyzer's docstring names the same six
  statuses and four actions as what it returns, but nothing compares the answer with
  them: the answer with status \<open>banana\<close> and action \<open>dance\<close> is returned as it is
  (with \<open>cost\<close> and \<open>tokens\<close> added), the worker's status becomes \<open>banana\<close>, and
  both log files receive a record with these two values.
\<close>

theorem out_of_enumeration_answer_not_rejected:
  "fst (WorkerAnalyzer_analyze_worker (demo_world (Parsed 10 5 (JObj (demo_answer ''banana'' ''dance''))))
          ''doc-1'' ''Proceed? [y/n]'' None None (demo_sys True))
     = Inr (demo_answer ''banana'' ''dance'' @
            [(''cost'', JFloat (analysis_cost 10 5)),
             (''tokens'', JObj [(''input'', JInt 10), (''output'', JInt 5)])])
   \<and> map_option status (map_of (workers (snd (LLMMonitorDaemon_analyze_worker
        (demo_world (Parsed 10 5 (JObj (demo_answer ''banana'' ''dance'')))) ''doc-1'' (demo_sys True))))
        ''doc-1'') = Some (JStr ''banana'')
   \<and> decisions_log (snd (LLMMonitorDaemon_analyze_worker
        (demo_world (Parsed 10 5 (JObj (demo_answer ''banana'' ''dance'')))) ''doc-1'' (demo_sys True)))
      = [HLine 401000000 ''doc-1'' (JStr ''banana'') (JStr ''dance'') (JInt 90)
           (JStr ''prompt on screen'')]
   \<and> map d_status (json_log (snd (LLMMonitorDaemon_analyze_worker
        (demo_world (Parsed 10 5 (JObj (demo_answer ''banana'' ''dance'')))) ''doc-1'' (demo_sys True))))
      = [JStr ''banana'']
   \<and> map d_action (json_log (snd (LLMMonitorDaemon_analyze_worker
        (demo_world (Parsed 10 5 (JObj (demo_answer ''banana'' ''dance'')))) ''doc-1'' (demo_sys True))))
      = [JStr ''dance'']"
  by (simp add: pass_defs demo_defs)

section \<open>The stuck count\<close>

text \<open>
  Claim C5, as amended. A classification pass whose decision has status \<open>error\<close> and
  either the action \<open>none\<close> or a reasoning (every decision synthesized from a failed
  classifier call has both) returns normally and sets \<open>consecutive_stuck_count\<close> to 0,
  whatever it was before: an error does not count toward escalation, and it ends a
  streak.
\<close>

theorem error_decision_resets_stuck_count:
  assumes "enabled (config s)" "map_of (workers s) wid = Some worker"
    and "run_capture wld (session_name s) (window_num worker) (max_context_lines (config s))
         = Completed 0 out" "out \<noteq> []"
    and "fst (WorkerAnalyzer_analyze_worker wld wid out (last_event_of wld wid)
               (worker_prompt_of wld wid) s) = Inr r"
    and "map_of r ''status'' = Some (JStr ''error'')"
    and "map_of r ''action'' = Some (JStr ''none'') \<or> map_of r ''reasoning'' \<noteq> None"
  shows "fst (LLMMonitorDaemon_analyze_worker wld wid s) = Inr ()
     \<and> map_option consecutive_stuck_count
          (map_of (workers (snd (LLMMonitorDaemon_analyze_worker wld wid s))) wid) = Some 0"
proof -
  let ?s1 = "snd (WorkerAnalyzer_analyze_worker wld wid out (last_event_of wld wid)
                  (worker_prompt_of wld wid) s)"
  have pass: "LLMMonitorDaemon_analyze_worker wld wid s = apply_analysis wld wid worker r ?s1"
    using assms(1-5) by (rule pass_unfold)
  obtain act where act: "map_of r ''action'' = Some act"
    using analyzer_keys [OF assms(5)] by auto
  have "act = JStr ''none'' \<or> map_of r ''reasoning'' \<noteq> None"
    using assms(7) act by auto
  then have ret: "fst (apply_analysis wld wid worker r ?s1) = Inr ()"
    using assms(6) act by (intro apply_analysis_returns) auto
  have w: "map_of (workers ?s1) wid = Some worker" using assms(2) by simp
  show ?thesis
    using pass ret apply_analysis_count [OF assms(6) w ret] by simp
qed

lemma demo_stuck_twice_worker:
  "map_of (workers demo_stuck_twice) ''doc-1'' =
     Some \<lparr> worker_id = ''doc-1'', window_num = 1, last_activity = 0,
            last_analysis = Some (demo_answer ''stuck'' ''intervene'' @
              [(''cost'', JFloat (analysis_cost 10 5)),
               (''tokens'', JObj [(''input'', JInt 10), (''output'', JInt 5)])]),
            status = JStr ''stuck'', consecutive_stuck_count = 2 \<rparr>"
  "config demo_stuck_twice = default_config"
  "session_name demo_stuck_twice = ''czarina-demo''"
  by (simp_all add: demo_stuck_twice_def pass_defs demo_defs)

theorem error_decision_resets_stuck_count_witness:
  "map_option consecutive_stuck_count (map_of (workers demo_stuck_twice) ''doc-1'') = Some 2
   \<and> fst (LLMMonitorDaemon_analyze_worker (demo_world (CallRaised ''Request timed out.''))
            ''doc-1'' demo_stuck_twice) = Inr ()
   \<and> map_option consecutive_stuck_count
       (map_of (workers (snd (LLMMonitorDaemon_analyze_worker
          (demo_world (CallRaised ''Request timed out.'')) ''doc-1'' demo_stuck_twice))) ''doc-1'')
     = Some 0"
  using error_decision_resets_stuck_count [of demo_stuck_twice "''doc-1''"
      "the (map_of (workers demo_stuck_twice) ''doc-1'')"
      "demo_world (CallRaised ''Request timed out.'')"
      "''Proceed? [y/n]''" "error_analysis ''Analysis failed: Request timed out.''"]
    analyzer_call_raised [of "demo_world (CallRaised ''Request timed out.'')" "''doc-1''"
      "''Proceed? [y/n]''" None None "''Request timed out.''" demo_stuck_twice]
  by (simp add: demo_stuck_twice_worker demo_world_def default_config_def)

text \<open>
  Claim C5 as stated fails: after two passes classified \<open>stuck\<close> the count of
  \<open>doc-1\<close> is 2, and a third pass whose classifier call times out leaves it at 0,
  not at 2.
\<close>

theorem error_decision_changes_stuck_count:
  "map_option consecutive_stuck_count
     (map_of (workers (snd (analyze_passes
        [demo_world (Parsed 10 5 (JObj (demo_answer ''stuck'' ''intervene''))),
         demo_world (Parsed 10 5 (JObj (demo_answer ''stuck'' ''intervene'')))]
        ''doc-1'' (demo_sys True)))) ''doc-1'') = Some 2
   \<and> map_option consecutive_stuck_count
     (map_of (workers (snd (analyze_passes
        [demo_world (Parsed 10 5 (JObj (demo_answer ''stuck'' ''intervene''))),
         demo_world (Parsed 10 5 (JObj (demo_answer ''stuck'' ''intervene''))),
         demo_world (CallRaised ''Request timed out.'')]
        ''doc-1'' (demo_sys True)))) ''doc-1'') = Some 0
   \<and> map d_status (json_log (snd (analyze_passes
        [demo_world (Parsed 10 5 (JObj (demo_answer ''stuck'' ''intervene''))),
         demo_world (Parsed 10 5 (JObj (demo_answer ''stuck'' ''intervene''))),
         demo_world (CallRaised ''Request timed out.'')]
        ''doc-1'' (demo_sys True)))) = [JStr ''stuck'', JStr ''stuck'']"
  by (simp add: pass_defs demo_defs)

section \<open>Escalation\<close>

lemma apply_analysis_worker:
  assumes "map_of a ''status'' = Some st" "map_of (workers s) wid = Some w0"
    and "fst (apply_analysis wld wid worker a s) = Inr ()"
  shows "map_of (workers (snd (apply_analysis wld wid worker a s))) wid =
     Some (w0\<lparr> last_analysis := Some a, status := st,
               consecutive_stuck_count :=
                 (if st = JStr ''stuck'' \<or> st = JStr ''confused''
                  then consecutive_stuck_count worker + 1 else 0) \<rparr>)"
  using assms
  by (auto simp: apply_analysis_def Let_def case_prod_beta split: option.splits sum.splits if_splits)

lemma classified_stuckE:
  assumes "classified_stuck wld wid s worker"
  obtains out r st where
    "run_capture wld (session_name s) (window_num worker) (max_context_lines (config s)) = Completed 0 out"
    "out \<noteq> []"
    "fst (WorkerAnalyzer_analyze_worker wld wid out (last_event_of wld wid)
            (worker_prompt_of wld wid) s) = Inr r"
    "map_of r ''status'' = Some st" "st = JStr ''stuck'' \<or> st = JStr ''confused''"
    "map_of r ''reasoning'' \<noteq> None"
  using assms unfolding classified_stuck_def
  by (auto split: proc.splits sum.splits)

lemma classified_stuck_cong:
  assumes "session_name s' = session_name s" "config s' = config s"
    and "window_num worker' = window_num worker"
  shows "classified_stuck wld wid s' worker' = classified_stuck wld wid s worker"
  using assms analyzer_result [of wld wid _ "last_event_of wld wid" "worker_prompt_of wld wid" s' s]
  by (simp add: classified_stuck_def split: proc.splits)

lemma pass_classified_stuck:
  assumes "enabled (config s)" "map_of (workers s) wid = Some worker"
    and "classified_stuck wld wid s worker"
  shows "fst (LLMMonitorDaemon_analyze_worker wld wid s) = Inr ()
     \<and> (\<exists>worker'. map_of (workers (snd (LLMMonitorDaemon_analyze_worker wld wid s))) wid = Some worker'
          \<and> window_num worker' = window_num worker
          \<and> (status worker' = JStr ''stuck'' \<or> status worker' = JStr ''confused'')
          \<and> consecutive_stuck_count worker' = consecutive_stuck_count worker + 1)
     \<and> escalations wid (snd (LLMMonitorDaemon_analyze_worker wld wid s)) =
         escalations wid s + (if 3 \<le> consecutive_stuck_count worker + 1 then 1 else 0)"
proof -
  from assms(3) obtain out r st where
    cap: "run_capture wld (session_name s) (window_num worker) (max_context_lines (config s)) = Completed 0 out"
    and out: "out \<noteq> []"
    and r: "fst (WorkerAnalyzer_analyze_worker wld wid out (last_event_of wld wid)
                  (worker_prompt_of wld wid) s) = Inr r"
    and st: "map_of r ''status'' = Some st" and stuck: "st = JStr ''stuck'' \<or> st = JStr ''confused''"
    and rs: "map_of r ''reasoning'' \<noteq> None"
    by (rule classified_stuckE)
  let ?s1 = "snd (WorkerAnalyzer_analyze_worker wld wid out (last_event_of wld wid)
                  (worker_prompt_of wld wid) s)"
  obtain act where act: "map_of r ''action'' = Some act"
    using analyzer_keys [OF r] by auto
  have pass: "LLMMonitorDaemon_analyze_worker wld wid s = apply_analysis wld wid worker r ?s1"
    using assms(1,2) cap out r by (rule pass_unfold)
  have w: "map_of (workers ?s1) wid = Some worker" using assms(2) by simp
  have ret: "fst (apply_analysis wld wid worker r ?s1) = Inr ()"
    using st act rs by (intro apply_analysis_returns) auto
  have e: "escalations wid ?s1 = escalations wid s" by simp
  show ?thesis
    using pass ret stuck e apply_analysis_worker [OF st w ret]
      apply_analysis_escalations [OF st ret, of wid]
    by auto
qed

text \<open>
  A streak starts from a count of 0: a worker is created with it, any activity update
  sets it, and so does every completed pass with another status
  (\<open>apply_analysis_count\<close>).
\<close>

lemma streak_starts_at_zero:
  "consecutive_stuck_count (WorkerState_init wid window now) = 0"
  "consecutive_stuck_count (update_activity now w) = 0"
  by (simp_all add: WorkerState_init_def update_activity_def)

text \<open>
  Claim C8, as amended. Three classification passes of one worker in direct succession
  (no activity update of the worker and no other classification between them), starting
  from a count of 0, whose results have status \<open>stuck\<close> or \<open>confused\<close> and carry a
  reasoning, all return normally; the first and the second add no escalation entry to
  the log, the third adds exactly one. Afterwards monitoring is still enabled and the
  worker is still in the table with a status that \<open>check_stale_workers\<close> does not
  skip: the loop goes on and the worker stays monitored.
\<close>

theorem third_stuck_result_escalates_once:
  assumes "enabled (config s)" "map_of (workers s) wid = Some worker"
    and "consecutive_stuck_count worker = 0"
    and "classified_stuck e1 wid s worker" "classified_stuck e2 wid s worker"
    and "classified_stuck e3 wid s worker"
  shows "fst (analyze_passes [e1, e2, e3] wid s) = Inr ()
     \<and> escalations wid (snd (analyze_passes [e1] wid s)) = escalations wid s
     \<and> escalations wid (snd (analyze_passes [e1, e2] wid s)) = escalations wid s
     \<and> escalations wid (snd (analyze_passes [e1, e2, e3] wid s)) = escalations wid s + 1
     \<and> enabled (config (snd (analyze_passes [e1, e2, e3] wid s)))
     \<and> (\<exists>worker'. map_of (workers (snd (analyze_passes [e1, e2, e3] wid s))) wid = Some worker'
          \<and> status worker' \<noteq> JStr ''COMPLETE'' \<and> status worker' \<noteq> JStr ''STUCK''
          \<and> consecutive_stuck_count worker' = 3)"
proof -
  let ?s1 = "snd (LLMMonitorDaemon_analyze_worker e1 wid s)"
  let ?s2 = "snd (LLMMonitorDaemon_analyze_worker e2 wid ?s1)"
  let ?s3 = "snd (LLMMonitorDaemon_analyze_worker e3 wid ?s2)"
  from pass_classified_stuck [OF assms(1,2,4)] assms(3) obtain w1 where
    r1: "fst (LLMMonitorDaemon_analyze_worker e1 wid s) = Inr ()"
    and w1: "map_of (workers ?s1) wid = Some w1" "window_num w1 = window_num worker"
      "consecutive_stuck_count w1 = 1"
    and e1: "escalations wid ?s1 = escalations wid s"
    by auto
  have en1: "enabled (config ?s1)" using assms(1) by simp
  have c2: "classified_stuck e2 wid ?s1 w1"
    using assms(5) w1(2) classified_stuck_cong [of ?s1 s w1 worker e2 wid] by simp
  from pass_classified_stuck [OF en1 w1(1) c2] w1(3) obtain w2 where
    r2: "fst (LLMMonitorDaemon_analyze_worker e2 wid ?s1) = Inr ()"
    and w2: "map_of (workers ?s2) wid = Some w2" "window_num w2 = window_num w1"
      "consecutive_stuck_count w2 = 2"
    and e2: "escalations wid ?s2 = escalations wid ?s1"
    by auto
  have en2: "enabled (config ?s2)" using assms(1) by simp
  have c3: "classified_stuck e3 wid ?s2 w2"
    using assms(6) w1(2) w2(2) classified_stuck_cong [of ?s2 s w2 worker e3 wid] by simp
  from pass_classified_stuck [OF en2 w2(1) c3] w2(3) obtain w3 where
    r3: "fst (LLMMonitorDaemon_analyze_worker e3 wid ?s2) = Inr ()"
    and w3: "map_of (workers ?s3) wid = Some w3"
      "status w3 = JStr ''stuck'' \<or> status w3 = JStr ''confused''"
      "consecutive_stuck_count w3 = 3"
    and e3: "escalations wid ?s3 = escalations wid ?s2 + 1"
    by auto
  have p1: "analyze_passes [e1] wid s = (Inr (), ?s1)"
    using r1 by (simp add: case_prod_beta)
  have p2: "analyze_passes [e1, e2] wid s = (Inr (), ?s2)"
    using r1 r2 by (simp add: case_prod_beta)
  have p3: "analyze_passes [e1, e2, e3] wid s = (Inr (), ?s3)"
    using r1 r2 r3 by (simp add: case_prod_beta)
  have en3: "enabled (config ?s3)" using assms(1) by simp
  show ?thesis
    unfolding p1 p2 p3 using e1 e2 e3 en3 w3 by auto
qed

theorem third_stuck_result_escalates_once_witness:
  "escalations ''doc-1'' (snd (analyze_passes
      [demo_world (Parsed 10 5 (JObj (demo_answer ''stuck'' ''intervene''))),
       demo_world (Parsed 10 5 (JObj (demo_answer ''confused'' ''intervene'')))]
      ''doc-1'' (demo_sys True))) = 0
   \<and> escalations ''doc-1'' (snd (analyze_passes
      [demo_world (Parsed 10 5 (JObj (demo_answer ''stuck'' ''intervene''))),
       demo_world (Parsed 10 5 (JObj (demo_answer ''confused'' ''intervene''))),
       demo_world (Parsed 10 5 (JObj (demo_answer ''stuck'' ''approve'')))]
      ''doc-1'' (demo_sys True))) = 1"
  using third_stuck_result_escalates_once [of "demo_sys True" "''doc-1''"
      "WorkerState_init ''doc-1'' 1 0"
      "demo_world (Parsed 10 5 (JObj (demo_answer ''stuck'' ''intervene'')))"
      "demo_world (Parsed 10 5 (JObj (demo_answer ''confused'' ''intervene'')))"
      "demo_world (Parsed 10 5 (JObj (demo_answer ''stuck'' ''approve'')))"]
  by (simp add: demo_defs classified_stuck_def escalations_def
        WorkerAnalyzer_analyze_worker_def analyze_worker_try_def after_response_def
        analysis_cost_try_def dict_set_def Let_def)

text \<open>
  Claim C8 as stated fails: an activity update between two of the results sets the
  count back to 0. After two passes classified \<open>stuck\<close>, a log update of \<open>doc-1\<close>
  and a third pass classified \<open>stuck\<close>, the three recorded results are all \<open>stuck\<close>
  with no other result between them, the third pass returns normally, and the log has
  no escalation entry; the count stands at 1.
\<close>

theorem activity_update_breaks_streak:
  "fst (LLMMonitorDaemon_analyze_worker
         (demo_world (Parsed 10 5 (JObj (demo_answer ''stuck'' ''intervene'')))) ''doc-1''
         (on_worker_log_update 900000000 ''doc-1'' demo_stuck_twice)) = Inr ()
   \<and> map d_status (json_log (snd (LLMMonitorDaemon_analyze_worker
         (demo_world (Parsed 10 5 (JObj (demo_answer ''stuck'' ''intervene'')))) ''doc-1''
         (on_worker_log_update 900000000 ''doc-1'' demo_stuck_twice))))
      = [JStr ''stuck'', JStr ''stuck'', JStr ''stuck'']
   \<and> escalations ''doc-1'' (snd (LLMMonitorDaemon_analyze_worker
         (demo_world (Parsed 10 5 (JObj (demo_answer ''stuck'' ''intervene'')))) ''doc-1''
         (on_worker_log_update 900000000 ''doc-1'' demo_stuck_twice))) = 0
   \<and> map_option consecutive_stuck_count (map_of (workers (snd (LLMMonitorDaemon_analyze_worker
         (demo_world (Parsed 10 5 (JObj (demo_answer ''stuck'' ''intervene'')))) ''doc-1''
         (on_worker_log_update 900000000 ''doc-1'' demo_stuck_twice)))) ''doc-1'') = Some 1"
  by (simp add: demo_stuck_twice_def on_worker_log_update_def update_activity_def
        escalations_def pass_defs demo_defs)

text \<open>
  The amended claim asks for a reasoning in every result: a result without one, with an
  action that makes the executor read it, is stored and logged and then raises
  \<open>KeyError\<close>, which ends the pass before the count is updated.
\<close>

lemma stuck_result_without_reasoning_raises:
  "fst (LLMMonitorDaemon_analyze_worker
         (demo_world (Parsed 10 5 (JObj [(''status'', JStr ''stuck''),
            (''action'', JStr ''intervene''), (''confidence'', JInt 90)]))) ''doc-1''
         demo_stuck_twice) = Inl (KeyError ''reasoning'')
   \<and> escalations ''doc-1'' (snd (LLMMonitorDaemon_analyze_worker
         (demo_world (Parsed 10 5 (JObj [(''status'', JStr ''stuck''),
            (''action'', JStr ''intervene''), (''confidence'', JInt 90)]))) ''doc-1''
         demo_stuck_twice)) = 0
   \<and> map_option consecutive_stuck_count (map_of (workers (snd (LLMMonitorDaemon_analyze_worker
         (demo_world (Parsed 10 5 (JObj [(''status'', JStr ''stuck''),
            (''action'', JStr ''intervene''), (''confidence'', JInt 90)]))) ''doc-1''
         demo_stuck_twice))) ''doc-1'') = Some 2"
  by (simp add: demo_stuck_twice_def escalations_def pass_defs demo_defs)

section \<open>The timer tick\<close>









text \<open>The loop of the tick: the workers it has passed, and the worker it reaches.\<close>

lemma check_loop_frame [simp]:
  "config (snd (check_loop wld ks s)) = config s"
  "session_name (snd (check_loop wld ks s)) = session_name s"
proof (induction ks arbitrary: s)
  case Nil
  {
    case 1 show ?case by simp
  next
    case 2 show ?case by simp
  }
next
  case (Cons k ks)
  {
    case 1 show ?case
      by (simp add: Cons case_prod_beta split: option.splits sum.splits)
  next
    case 2 show ?case
      by (simp add: Cons case_prod_beta split: option.splits sum.splits)
  }
qed







text \<open>
  The exceptions that can cut a tick short: the \<open>KeyError\<close> of \<open>analysis['reasoning']\<close>
  in the executor, for a decision without that key, and the \<open>UnboundLocalError\<close> of
  the analyzer's first handler.
\<close>

lemma execute_raises_only_missing_reasoning:
  "(\<exists>b. fst (execute wld wid window a s) = Inr b)
   \<or> (fst (execute wld wid window a s) = Inl (KeyError ''reasoning'') \<and> map_of a ''reasoning'' = None)"
  by (cases "map_of a ''reasoning''")
     (auto simp: execute_def Let_def case_prod_beta split: option.splits sum.splits)

lemma apply_analysis_raises_only_missing_reasoning:
  assumes "map_of a ''status'' \<noteq> None" "map_of a ''action'' \<noteq> None"
  shows "fst (apply_analysis wld wid worker a s) = Inr ()
       \<or> (fst (apply_analysis wld wid worker a s) = Inl (KeyError ''reasoning'')
           \<and> map_of a ''reasoning'' = None)"
proof -
  obtain st act where st: "map_of a ''status'' = Some st" and act: "map_of a ''action'' = Some act"
    using assms by auto
  let ?s1 = "modify_worker wid (\<lambda>w. w\<lparr>status := st\<rparr>)
        (modify_worker wid (\<lambda>w. w\<lparr>last_analysis := Some a\<rparr>) s)"
  show ?thesis
    using st act execute_raises_only_missing_reasoning [of wld wid "window_num worker" a ?s1]
    by (auto simp: apply_analysis_def Let_def case_prod_beta split: sum.splits)
qed

lemma pass_raises_only:
  "fst (LLMMonitorDaemon_analyze_worker wld wid s) = Inr ()
   \<or> fst (LLMMonitorDaemon_analyze_worker wld wid s) = Inl (KeyError ''reasoning'')
   \<or> fst (LLMMonitorDaemon_analyze_worker wld wid s) = Inl (UnboundLocalError ''response'')"
proof (cases "enabled (config s)")
  case False
  then show ?thesis by (simp add: LLMMonitorDaemon_analyze_worker_def)
next
  case True
  show ?thesis
  proof (cases "map_of (workers s) wid")
    case None
    then show ?thesis using True by (simp add: LLMMonitorDaemon_analyze_worker_def)
  next
    case (Some worker)
    let ?c = "capture_pane wld (window_num worker) (max_context_lines (config s)) s"
    show ?thesis
    proof (cases "fst ?c")
      case (Inl e)
      then show ?thesis by (simp add: capture_pane_def split: sum.splits)
    next
      case (Inr v)
      show ?thesis
      proof (cases "v = None \<or> v = Some []")
        case True
        then show ?thesis using \<open>enabled (config s)\<close> Some Inr
          by (auto simp: LLMMonitorDaemon_analyze_worker_def case_prod_beta)
      next
        case False
        then obtain out where out: "v = Some out" "out \<noteq> []" by auto
        let ?a = "WorkerAnalyzer_analyze_worker wld wid out (last_event_of wld wid)
                    (worker_prompt_of wld wid) (snd ?c)"
        consider (ret) r where "fst ?a = Inr r"
          | (raised) "fst ?a = Inl (UnboundLocalError ''response'')"
          using analyzer_raises_iff [of wld wid out "last_event_of wld wid"
              "worker_prompt_of wld wid" "snd ?c"] by auto
        then show ?thesis
        proof cases
          case ret
          have keys: "map_of r ''status'' \<noteq> None" "map_of r ''action'' \<noteq> None"
            using analyzer_keys [OF ret] by auto
          have "LLMMonitorDaemon_analyze_worker wld wid s = apply_analysis wld wid worker r (snd ?a)"
            using \<open>enabled (config s)\<close> Some Inr out ret
            by (simp add: LLMMonitorDaemon_analyze_worker_def case_prod_beta)
          then show ?thesis
            using apply_analysis_raises_only_missing_reasoning [OF keys, of wld wid worker "snd ?a"]
            by auto
        next
          case raised
          then show ?thesis using \<open>enabled (config s)\<close> Some Inr out
            by (simp add: LLMMonitorDaemon_analyze_worker_def case_prod_beta)
        qed
      qed
    qed
  qed
qed

end
